theory Spec2Isabelle
  imports Main "HOL-Library.AList"
begin

section \<open>JavaScript values and objects\<close>

text \<open>
  The module \<^verbatim>\<open>Functions.js\<close> works on schema-less documents: plain JavaScript
  objects whose properties hold numbers, strings, timestamps, arrays or nothing at all.
  A value is a \<open>jsval\<close>; an object is its list of properties in insertion order.
  The numbers are the integer-valued doubles, \<open>Num n\<close>, and \<open>NaN\<close> (occupant counts,
  rents, floors and rooms are whole numbers); fractions and the infinities are not
  among the values. \<open>Timestamp t\<close> is a store timestamp of \<open>t\<close> milliseconds since the
  epoch.
\<close>

datatype jsval =
    Undefined
  | Null
  | JBool bool
  | Num int
  | NaN
  | Str string
  | Timestamp int
  | Arr "jsval list"
  | Obj "(string \<times> jsval) list"

type_synonym obj = "(string \<times> jsval) list"

text \<open>\<open>property ob k\<close> is the property read \<^verbatim>\<open>ob.k\<close>: a missing property reads as undefined.\<close>

definition property :: "obj \<Rightarrow> string \<Rightarrow> jsval" where
  "property ob k = (case map_of ob k of None \<Rightarrow> Undefined | Some v \<Rightarrow> v)"

text \<open>
  \<open>spread base extra\<close> is the object literal \<^verbatim>\<open>{ ...base, ...extra }\<close>: the properties
  of \<open>extra\<close> are assigned left to right, each one replacing a property of the same
  name or being appended.
\<close>

definition spread :: "obj \<Rightarrow> obj \<Rightarrow> obj" where
  "spread base extra = fold (\<lambda>kv. AList.update (fst kv) (snd kv)) extra base"

text \<open>\<open>truthy v\<close> is the boolean coercion of \<^verbatim>\<open>if (v)\<close>, \<^verbatim>\<open>!v\<close> and \<^verbatim>\<open>v && ...\<close>.\<close>

fun truthy :: "jsval \<Rightarrow> bool" where
  "truthy Undefined = False"
| "truthy Null = False"
| "truthy (JBool b) = b"
| "truthy (Num n) = (n \<noteq> 0)"
| "truthy NaN = False"
| "truthy (Str s) = (s \<noteq> [])"
| "truthy (Timestamp t) = True"
| "truthy (Arr vs) = True"
| "truthy (Obj ps) = True"

text \<open>
  \<open>not_positive_number v\<close> is the test
  \<^verbatim>\<open>typeof v !== 'number' || v <= 0\<close>; the comparison is only reached by a number,
  and NaN, a number, is not below or equal to 0.
\<close>

fun not_positive_number :: "jsval \<Rightarrow> bool" where
  "not_positive_number (Num n) = (n \<le> 0)"
| "not_positive_number NaN = False"
| "not_positive_number v = True"

text \<open>
  \<open>strict_eq a b\<close> is \<^verbatim>\<open>a === b\<close> between a property of a document read back from
  the store and another value: primitives compare by type and value (NaN equals
  nothing), while arrays, objects and timestamps are fresh references after the read
  and equal nothing else.
\<close>

fun strict_eq :: "jsval \<Rightarrow> jsval \<Rightarrow> bool" where
  "strict_eq Undefined Undefined = True"
| "strict_eq Null Null = True"
| "strict_eq (JBool a) (JBool b) = (a = b)"
| "strict_eq (Num a) (Num b) = (a = b)"
| "strict_eq (Str a) (Str b) = (a = b)"
| "strict_eq a b = False"

text \<open>Whether undefined occurs in a value, at any depth of arrays and objects.\<close>

fun contains_undefined :: "jsval \<Rightarrow> bool" where
  "contains_undefined Undefined = True"
| "contains_undefined (Arr vs) = list_ex contains_undefined vs"
| "contains_undefined (Obj ps) = list_ex contains_undefined (map snd ps)"
| "contains_undefined v = False"

section \<open>Errors\<close>

text \<open>
  Every \<^verbatim>\<open>throw new Error(...)\<close> of the module is one constructor; each function catches
  the error, logs it and throws it again, so the caller sees it unchanged.
  \<^item> \<open>ApartmentNotFound\<close>: 'Apartment not found'
  \<^item> \<open>AtMaximumCapacity\<close>: 'Apartment is at maximum capacity (3 occupants)'
  \<^item> \<open>UserNotFound\<close>: 'User not found'
  \<^item> \<open>UserAlreadyActive\<close>: 'User already has an active apartment'
  \<^item> \<open>MissingRequiredFields\<close>: 'Missing required fields: unitNumber, rooms, monthlyRent, maxOccupants'
  \<^item> \<open>InvalidNumericValues\<close>: 'Invalid numeric values: rooms, monthlyRent, and maxOccupants must be positive numbers'
  \<^item> \<open>UnitNumberExists\<close>: 'Apartment with this unit number already exists'
  \<^item> \<open>InvalidFloor\<close>, \<open>InvalidRooms\<close>, \<open>InvalidMonthlyRent\<close>, \<open>InvalidMaxOccupants\<close>:
    'Invalid floor number', 'Invalid number of rooms', 'Invalid monthly rent',
    'Invalid maximum occupants'
  \<^item> \<open>ActiveTenantsPresent\<close>: 'Cannot delete apartment with active tenants'
  The others are thrown by the language and by the store client:
  \<^item> \<open>NotAFunction\<close>: the TypeError of calling a value that is not a function
  \<^item> \<open>CannotConvert\<close>: the TypeError of an object that has no primitive value
  \<^item> \<open>InvalidData\<close>: the client's refusal of data it cannot write, such as an
    undefined property
  \<^item> \<open>NoSuchDocument\<close>: the store's refusal to update a document that does not exist
  \<^item> \<open>TimestampOutOfRange\<close>: \<^verbatim>\<open>Timestamp.fromDate\<close> on an instant outside the years 1 to 9999
\<close>

datatype error =
    ApartmentNotFound
  | AtMaximumCapacity
  | UserNotFound
  | UserAlreadyActive
  | MissingRequiredFields
  | InvalidNumericValues
  | UnitNumberExists
  | InvalidFloor
  | InvalidRooms
  | InvalidMonthlyRent
  | InvalidMaxOccupants
  | ActiveTenantsPresent
  | NotAFunction
  | CannotConvert
  | InvalidData
  | NoSuchDocument
  | TimestampOutOfRange

section \<open>The document store\<close>

text \<open>
  The three collections the module touches, each a list of documents (identifier and
  data) in the order the store returns them, and the log of the writes issued so far.
\<close>

datatype coll = Apartments | TenantApartments | Users

datatype store_write =
    Added coll string obj
  | Updated coll string obj
  | Deleted coll string

record db =
  apartments :: "(string \<times> obj) list"
  tenantApartments :: "(string \<times> obj) list"
  users :: "(string \<times> obj) list"
  writes :: "store_write list"

fun docs :: "db \<Rightarrow> coll \<Rightarrow> (string \<times> obj) list" where
  "docs s Apartments = apartments s"
| "docs s TenantApartments = tenantApartments s"
| "docs s Users = users s"

fun set_docs :: "coll \<Rightarrow> (string \<times> obj) list \<Rightarrow> db \<Rightarrow> db" where
  "set_docs Apartments ds s = s\<lparr>apartments := ds\<rparr>"
| "set_docs TenantApartments ds s = s\<lparr>tenantApartments := ds\<rparr>"
| "set_docs Users ds s = s\<lparr>users := ds\<rparr>"

section \<open>What the language and the store client decide\<close>

text \<open>
  The source relies on conversions of the language and on checks of the store client
  whose outcome depends on text that is not in the module. They are the four fields
  of a \<open>platform\<close>, and every theorem below holds for every platform:
  \<^item> \<open>to_primitive v\<close>: the string an array, an object or a timestamp converts to when
    it meets \<^verbatim>\<open>>=\<close> or \<^verbatim>\<open>+\<close>, or the TypeError of a value that has none;
  \<^item> \<open>string_at_least s k\<close>: whether the number the string \<open>s\<close> converts to is at
    least \<open>k\<close> (false when it converts to NaN);
  \<^item> \<open>sdk_accepts w\<close>: whether the client's further checks of a write (field names,
    nesting, size) let it through;
  \<^item> \<open>field_paths old d\<close>: the document an update \<open>d\<close> makes of \<open>old\<close> when one of its
    keys is a dotted path into nested fields.
\<close>

record platform =
  to_primitive :: "jsval \<Rightarrow> error + string"
  string_at_least :: "string \<Rightarrow> int \<Rightarrow> bool"
  sdk_accepts :: "store_write \<Rightarrow> bool"
  field_paths :: "obj \<Rightarrow> obj \<Rightarrow> obj"

text \<open>
  \<open>js_ge P v k\<close> is \<^verbatim>\<open>v >= k\<close> for a number \<open>k\<close>: the left side is converted to a
  number, and a comparison with NaN is false.
\<close>

fun js_ge :: "platform \<Rightarrow> jsval \<Rightarrow> int \<Rightarrow> error + bool" where
  "js_ge P Undefined k = Inr False"
| "js_ge P Null k = Inr (0 \<ge> k)"
| "js_ge P (JBool b) k = Inr ((if b then 1 else 0) \<ge> k)"
| "js_ge P (Num n) k = Inr (n \<ge> k)"
| "js_ge P NaN k = Inr False"
| "js_ge P (Str s) k = Inr (string_at_least P s k)"
| "js_ge P v k =
     (case to_primitive P v of Inl e \<Rightarrow> Inl e | Inr s \<Rightarrow> Inr (string_at_least P s k))"

text \<open>
  The sum of two doubles is the exact sum rounded to 53 significant bits, ties to the
  even neighbour; up to \<open>2 ^ 53\<close> in size every integer is its own rounding.
\<close>

function bit_length :: "int \<Rightarrow> nat" where
  "bit_length n = (if n \<le> 0 then 0 else Suc (bit_length (n div 2)))"
  by pat_completeness auto
termination
  by (relation "measure nat") auto

declare bit_length.simps [simp del]

definition round_double :: "int \<Rightarrow> int" where
  "round_double n =
     (if \<bar>n\<bar> \<le> 9007199254740992 then n
      else
        (let a = \<bar>n\<bar>;
             e = bit_length a - 53;
             q = a div 2 ^ e;
             r = a mod 2 ^ e;
             q' = (if 2 * r > 2 ^ e \<or> (2 * r = 2 ^ e \<and> odd q) then q + 1 else q)
         in sgn n * (q' * 2 ^ e)))"

text \<open>
  \<open>plus_one P v\<close> is \<^verbatim>\<open>v + 1\<close>: a sum of numbers for undefined, null, a boolean or a
  number, and the concatenation with the string '1' for a string or an object.
\<close>

fun plus_one :: "platform \<Rightarrow> jsval \<Rightarrow> error + jsval" where
  "plus_one P Undefined = Inr NaN"
| "plus_one P Null = Inr (Num 1)"
| "plus_one P (JBool b) = Inr (Num (if b then 2 else 1))"
| "plus_one P (Num n) = Inr (Num (round_double (n + 1)))"
| "plus_one P NaN = Inr NaN"
| "plus_one P (Str s) = Inr (Str (s @ ''1''))"
| "plus_one P v =
     (case to_primitive P v of Inl e \<Rightarrow> Inl e | Inr s \<Rightarrow> Inr (Str (s @ ''1'')))"

text \<open>
  \<^verbatim>\<open>Timestamp.fromDate\<close> accepts the instants from the year 1 to the year 9999 and
  throws for the others.
\<close>

definition timestamp_in_range :: "int \<Rightarrow> bool" where
  "timestamp_in_range ms = (- 62135596800000 \<le> ms \<and> ms < 253402300800000)"

section \<open>Reading and writing documents\<close>

text \<open>
  \<^verbatim>\<open>getDoc(doc(db, c, id))\<close>: \<open>None\<close> when \<^verbatim>\<open>exists()\<close> is false, else the data.
  The identifiers handed to the functions are read as the names of documents of the
  collection. \<open>document_id\<close> says when the store takes a string for such a name: it
  is not empty, holds no slash, is neither one nor two periods, does not begin with
  two underscores and is at most 1500 bytes long. The name of a stored document is
  one; for another string \<^verbatim>\<open>doc\<close> builds no reference to a document of the collection.
\<close>

definition document_id :: "string \<Rightarrow> bool" where
  "document_id i =
     (i \<noteq> [] \<and> CHR ''/'' \<notin> set i \<and> i \<noteq> ''.'' \<and> i \<noteq> ''..'' \<and>
      take 2 i \<noteq> ''__'' \<and> length i \<le> 1500)"

definition getDoc :: "db \<Rightarrow> coll \<Rightarrow> string \<Rightarrow> obj option" where
  "getDoc s c ident = map_of (docs s c) ident"

text \<open>
  \<^verbatim>\<open>where(field, '==', v)\<close> keeps the documents whose field holds exactly \<open>v\<close>;
  \<^verbatim>\<open>where(field, '<', n)\<close> with a number \<open>n\<close> keeps those whose field holds a smaller
  number (a document without the field, or with NaN or another type there, is left
  out).
\<close>

datatype constraint = WhereEq string jsval | WhereLt string int

fun satisfies :: "obj \<Rightarrow> constraint \<Rightarrow> bool" where
  "satisfies d (WhereEq f v) = (map_of d f = Some v)"
| "satisfies d (WhereLt f n) = (case map_of d f of Some (Num m) \<Rightarrow> m < n | _ \<Rightarrow> False)"

text \<open>\<^verbatim>\<open>getDocs(query(collection(db, c), ...))\<close>; no constraint gives the whole collection.\<close>

definition getDocs :: "db \<Rightarrow> coll \<Rightarrow> constraint list \<Rightarrow> (string \<times> obj) list" where
  "getDocs s c cs = filter (\<lambda>d. list_all (satisfies (snd d)) cs) (docs s c)"

text \<open>
  The client, with its default settings, refuses data in which a property is
  undefined, at any depth, before anything reaches the store; its other checks are
  the platform's.
\<close>

fun write_data :: "store_write \<Rightarrow> obj" where
  "write_data (Added c ident d) = d"
| "write_data (Updated c ident d) = d"
| "write_data (Deleted c ident) = []"

definition accepted :: "platform \<Rightarrow> store_write \<Rightarrow> bool" where
  "accepted P w =
     (list_all (\<lambda>v. \<not> contains_undefined v) (map snd (write_data w)) \<and> sdk_accepts P w)"

text \<open>A key of an update is a field name unless it holds a dot, which makes it a path.\<close>

definition plain_key :: "string \<Rightarrow> bool" where
  "plain_key k = (CHR ''.'' \<notin> set k)"

text \<open>
  \<^verbatim>\<open>addDoc\<close> stores the data under the identifier the client generates (\<open>newId\<close>),
  \<^verbatim>\<open>updateDoc\<close> merges the given properties into an existing document and is refused
  when there is none, \<^verbatim>\<open>deleteDoc\<close> removes the document. Each write that goes
  through is logged; a refused one changes nothing.
\<close>

definition addDoc :: "platform \<Rightarrow> coll \<Rightarrow> string \<Rightarrow> obj \<Rightarrow> db \<Rightarrow> error + db" where
  "addDoc P c newId d s =
     (if accepted P (Added c newId d)
      then Inr ((set_docs c (AList.update newId d (docs s c)) s)
                  \<lparr>writes := writes s @ [Added c newId d]\<rparr>)
      else Inl InvalidData)"

definition updateDoc :: "platform \<Rightarrow> coll \<Rightarrow> string \<Rightarrow> obj \<Rightarrow> db \<Rightarrow> error + db" where
  "updateDoc P c ident d s =
     (if accepted P (Updated c ident d)
      then
        (case getDoc s c ident of
           None \<Rightarrow> Inl NoSuchDocument
         | Some old \<Rightarrow>
             Inr ((set_docs c
                     (AList.update ident
                        (if list_all plain_key (map fst d) then spread old d
                         else field_paths P old d)
                        (docs s c)) s)
                    \<lparr>writes := writes s @ [Updated c ident d]\<rparr>))
      else Inl InvalidData)"

definition deleteDoc :: "coll \<Rightarrow> string \<Rightarrow> db \<Rightarrow> db" where
  "deleteDoc c ident s =
     (set_docs c (AList.delete ident (docs s c)) s)\<lparr>writes := writes s @ [Deleted c ident]\<rparr>"

text \<open>The projection \<^verbatim>\<open>{ id: doc.id, ...doc.data() }\<close> of a document snapshot.\<close>

definition with_id :: "string \<times> obj \<Rightarrow> obj" where
  "with_id d = spread [(''id'', Str (fst d))] (snd d)"

section \<open>Apartment management\<close>

text \<open>
  \<^verbatim>\<open>createApartment(apartmentData)\<close>. \<open>now\<close> is the clock reading of
  \<^verbatim>\<open>Timestamp.fromDate(new Date())\<close> and \<open>newId\<close> the identifier \<^verbatim>\<open>addDoc\<close> generates.
  Here and in the functions below the clock readings of one call are taken to be the
  same instant; the messages written to the console are left out.
\<close>

definition createApartment ::
  "platform \<Rightarrow> int \<Rightarrow> string \<Rightarrow> obj \<Rightarrow> db \<Rightarrow> (error + obj) \<times> db" where
  "createApartment P now newId apartmentData s =
     (if \<not> truthy (property apartmentData ''unitNumber'') \<or> \<not> truthy (property apartmentData ''rooms'') \<or>
         \<not> truthy (property apartmentData ''monthlyRent'') \<or> \<not> truthy (property apartmentData ''maxOccupants'')
      then (Inl MissingRequiredFields, s)
      else if not_positive_number (property apartmentData ''rooms'') \<or>
              not_positive_number (property apartmentData ''monthlyRent'') \<or>
              not_positive_number (property apartmentData ''maxOccupants'')
      then (Inl InvalidNumericValues, s)
      else
        (case find (\<lambda>d. strict_eq (property (snd d) ''unitNumber'') (property apartmentData ''unitNumber''))
                (getDocs s Apartments []) of
           Some existingApartment \<Rightarrow> (Inl UnitNumberExists, s)
         | None \<Rightarrow>
             if \<not> timestamp_in_range now then (Inl TimestampOutOfRange, s)
             else
               (let newApartment = spread apartmentData
                      [(''status'', Str ''available''),
                       (''currentOccupants'', Num 0),
                       (''createdAt'', Timestamp now),
                       (''updatedAt'', Timestamp now)]
                in case addDoc P Apartments newId newApartment s of
                     Inl e \<Rightarrow> (Inl e, s)
                   | Inr s' \<Rightarrow> (Inr (spread [(''id'', Str newId)] newApartment), s'))))"

text \<open>\<^verbatim>\<open>updateApartment(apartmentId, updateData)\<close>.\<close>

definition updateApartment ::
  "platform \<Rightarrow> int \<Rightarrow> string \<Rightarrow> obj \<Rightarrow> db \<Rightarrow> (error + obj) \<times> db" where
  "updateApartment P now apartmentId updateData s =
     (case getDoc s Apartments apartmentId of
        None \<Rightarrow> (Inl ApartmentNotFound, s)
      | Some apartmentDoc \<Rightarrow>
          if truthy (property updateData ''floor'') \<and> not_positive_number (property updateData ''floor'')
          then (Inl InvalidFloor, s)
          else if truthy (property updateData ''rooms'') \<and> not_positive_number (property updateData ''rooms'')
          then (Inl InvalidRooms, s)
          else if truthy (property updateData ''monthlyRent'') \<and>
                  not_positive_number (property updateData ''monthlyRent'')
          then (Inl InvalidMonthlyRent, s)
          else if truthy (property updateData ''maxOccupants'') \<and>
                  not_positive_number (property updateData ''maxOccupants'')
          then (Inl InvalidMaxOccupants, s)
          else if truthy (property updateData ''unitNumber'') \<and>
                  find (\<lambda>d. fst d \<noteq> apartmentId \<and>
                             strict_eq (property (snd d) ''unitNumber'') (property updateData ''unitNumber''))
                       (getDocs s Apartments []) \<noteq> None
          then (Inl UnitNumberExists, s)
          else if \<not> timestamp_in_range now then (Inl TimestampOutOfRange, s)
          else
            (let updatedData = spread updateData [(''updatedAt'', Timestamp now)]
             in case updateDoc P Apartments apartmentId updatedData s of
                  Inl e \<Rightarrow> (Inl e, s)
                | Inr s' \<Rightarrow> (Inr (spread [(''id'', Str apartmentId)] updatedData), s')))"

text \<open>
  \<^verbatim>\<open>deleteApartment(apartmentId)\<close>: the active tenants are found by reading the whole
  \<^verbatim>\<open>tenantApartments\<close> collection and filtering it with \<^verbatim>\<open>===\<close>.
\<close>

definition deleteApartment :: "string \<Rightarrow> db \<Rightarrow> (error + unit) \<times> db" where
  "deleteApartment apartmentId s =
     (case getDoc s Apartments apartmentId of
        None \<Rightarrow> (Inl ApartmentNotFound, s)
      | Some apartmentDoc \<Rightarrow>
          (let activeTenants =
                 filter (\<lambda>d. strict_eq (property (snd d) ''apartmentId'') (Str apartmentId) \<and>
                             strict_eq (property (snd d) ''status'') (Str ''active''))
                        (getDocs s TenantApartments [])
           in if length activeTenants > 0 then (Inl ActiveTenantsPresent, s)
              else (Inr (), deleteDoc Apartments apartmentId s)))"

text \<open>\<^verbatim>\<open>getAvailableApartments()\<close>: one range query with the literal 3.\<close>

definition getAvailableApartments :: "db \<Rightarrow> (error + obj list) \<times> db" where
  "getAvailableApartments s =
     (Inr (map with_id (getDocs s Apartments [WhereLt ''currentOccupants'' 3])), s)"

section \<open>Tenant assignment\<close>

text \<open>
  The lease dates arrive as the instants \<^verbatim>\<open>new Date(leaseData.startDate)\<close> and
  \<^verbatim>\<open>new Date(leaseData.endDate)\<close> denote, in milliseconds since the epoch; a lease
  whose dates denote no instant is not among the inputs.
\<close>

record leaseData =
  startDate :: int
  endDate :: int

text \<open>
  \<^verbatim>\<open>assignTenant(userId, apartmentId, leaseData)\<close>: four checks, then three writes, each
  committed on its own. A write the store refuses leaves the earlier ones in place.
  \<open>tenantApartmentData\<close> is the object literal of that name in the source; building it
  converts the two lease dates and the clock reading to timestamps, which throws
  before the first write when one of them is out of range.
\<close>

definition tenantApartmentData :: "int \<Rightarrow> string \<Rightarrow> string \<Rightarrow> leaseData \<Rightarrow> obj \<Rightarrow> obj" where
  "tenantApartmentData now userId apartmentId lease apartment =
     [(''userId'', Str userId),
      (''apartmentId'', Str apartmentId),
      (''status'', Str ''active''),
      (''role'', Str ''primary''),
      (''leaseStartDate'', Timestamp (startDate lease)),
      (''leaseEndDate'', Timestamp (endDate lease)),
      (''monthlyRent'', property apartment ''monthlyRent''),
      (''createdAt'', Timestamp now),
      (''updatedAt'', Timestamp now)]"

definition assignTenant ::
  "platform \<Rightarrow> int \<Rightarrow> string \<Rightarrow> string \<Rightarrow> string \<Rightarrow> leaseData \<Rightarrow> db \<Rightarrow> (error + obj) \<times> db" where
  "assignTenant P now newId userId apartmentId lease s =
     (case getDoc s Apartments apartmentId of
        None \<Rightarrow> (Inl ApartmentNotFound, s)
      | Some apartment \<Rightarrow>
          (case js_ge P (property apartment ''currentOccupants'') 3 of
             Inl e \<Rightarrow> (Inl e, s)
           | Inr True \<Rightarrow> (Inl AtMaximumCapacity, s)
           | Inr False \<Rightarrow>
               (case getDoc s Users userId of
                  None \<Rightarrow> (Inl UserNotFound, s)
                | Some userDoc \<Rightarrow>
                    if getDocs s TenantApartments
                         [WhereEq ''userId'' (Str userId), WhereEq ''status'' (Str ''active'')] \<noteq> []
                    then (Inl UserAlreadyActive, s)
                    else if \<not> (timestamp_in_range (startDate lease) \<and>
                                timestamp_in_range (endDate lease) \<and> timestamp_in_range now)
                    then (Inl TimestampOutOfRange, s)
                    else
                      (case addDoc P TenantApartments newId
                              (tenantApartmentData now userId apartmentId lease apartment) s of
                         Inl e \<Rightarrow> (Inl e, s)
                       | Inr s1 \<Rightarrow>
                           (case plus_one P (property apartment ''currentOccupants'') of
                              Inl e \<Rightarrow> (Inl e, s1)
                            | Inr occupants \<Rightarrow>
                                (case updateDoc P Apartments apartmentId
                                        [(''currentOccupants'', occupants),
                                         (''updatedAt'', Timestamp now)] s1 of
                                   Inl e \<Rightarrow> (Inl e, s1)
                                 | Inr s2 \<Rightarrow>
                                     (case updateDoc P Users userId
                                             [(''apartmentId'', Str apartmentId),
                                              (''updatedAt'', Timestamp now)] s2 of
                                        Inl e \<Rightarrow> (Inl e, s2)
                                      | Inr s3 \<Rightarrow>
                                          (Inr (spread [(''id'', Str newId)]
                                                  (tenantApartmentData now userId apartmentId
                                                     lease apartment)),
                                           s3))))))))"

text \<open>
  \<^verbatim>\<open>removeTenant(userId, apartmentId)\<close>: the body holds three comments and no statement,
  so the call resolves to undefined and touches nothing.
\<close>

definition removeTenant :: "string \<Rightarrow> string \<Rightarrow> db \<Rightarrow> (error + jsval) \<times> db" where
  "removeTenant userId apartmentId s = (Inr Undefined, s)"

text \<open>
  \<^verbatim>\<open>getApartmentTenants(apartmentId)\<close>. The callback mapped over the query result names
  its parameter \<^verbatim>\<open>doc\<close>, which hides the imported function \<^verbatim>\<open>doc\<close> inside it; the
  line \<^verbatim>\<open>const userRef = doc(db, 'users', tenantData.userId)\<close> therefore calls the
  snapshot itself. \<open>call_snapshot\<close> is that call: a snapshot is not a function.
  \<open>promise_all\<close> is \<^verbatim>\<open>Promise.all\<close>: the values in order, or the first rejection.
\<close>

definition call_snapshot :: "string \<times> obj \<Rightarrow> coll \<Rightarrow> jsval \<Rightarrow> error + string" where
  "call_snapshot d c ident = Inl NotAFunction"

definition tenant_with_user :: "db \<Rightarrow> string \<times> obj \<Rightarrow> error + obj" where
  "tenant_with_user s d =
     (let tenantData = snd d
      in case call_snapshot d Users (property tenantData ''userId'') of
           Inl e \<Rightarrow> Inl e
         | Inr userRef \<Rightarrow>
             Inr (spread (spread [(''id'', Str (fst d))] tenantData)
                    [(''user'', case getDoc s Users userRef of
                                  Some userData \<Rightarrow> Obj userData
                                | None \<Rightarrow> Null)]))"

fun promise_all :: "(error + 'a) list \<Rightarrow> error + 'a list" where
  "promise_all [] = Inr []"
| "promise_all (Inl e # rs) = Inl e"
| "promise_all (Inr v # rs) = (case promise_all rs of Inl e \<Rightarrow> Inl e | Inr vs \<Rightarrow> Inr (v # vs))"

definition getApartmentTenants :: "string \<Rightarrow> db \<Rightarrow> (error + obj list) \<times> db" where
  "getApartmentTenants apartmentId s =
     (promise_all
        (map (tenant_with_user s)
           (getDocs s TenantApartments
              [WhereEq ''apartmentId'' (Str apartmentId), WhereEq ''status'' (Str ''active'')])),
      s)"


section \<open>Example stores\<close>

text \<open>
  A platform to run the examples on. It reads a string of decimal digits as its
  number and takes every other string for NaN, gives every object the string of a
  plain object, lets every write through and leaves dotted paths alone. The documents
  of the examples hold numbers where the source compares and adds, and their keys are
  field names, so of the four answers only the acceptance of the writes is used.
\<close>

definition digit_value :: "char \<Rightarrow> int option" where
  "digit_value c =
     (let n = (of_char c :: nat) in if 48 \<le> n \<and> n \<le> 57 then Some (int n - 48) else None)"

fun decimal :: "int \<Rightarrow> string \<Rightarrow> int option" where
  "decimal acc [] = Some acc"
| "decimal acc (c # cs) =
     (case digit_value c of None \<Rightarrow> None | Some d \<Rightarrow> decimal (10 * acc + d) cs)"

definition example_platform :: platform where
  "example_platform =
     \<lparr>to_primitive = (\<lambda>v. Inr ''[object Object]''),
      string_at_least = (\<lambda>s k. case decimal 0 s of None \<Rightarrow> False | Some n \<Rightarrow> k \<le> n),
      sdk_accepts = (\<lambda>w. True),
      field_paths = (\<lambda>old d. old)\<rparr>"

text \<open>
  Apartment A with room for two and one occupant, and two users without a tenancy;
  the lease of 2024 (1 January to 31 December) and a lease whose end (1 January 2024)
  lies before its start (1 June 2024).
\<close>

definition apartmentA :: obj where
  "apartmentA =
     [(''buildingName'', Str ''North''), (''unitNumber'', Str ''101''), (''floor'', Num 1),
      (''rooms'', Num 2), (''status'', Str ''available''), (''monthlyRent'', Num 1200),
      (''maxOccupants'', Num 2), (''currentOccupants'', Num 1)]"

definition example_db :: db where
  "example_db =
     \<lparr>apartments = [(''A'', apartmentA)],
      tenantApartments = [],
      users = [(''userX'', [(''name'', Str ''X'')]), (''userY'', [(''name'', Str ''Y'')])],
      writes = []\<rparr>"

definition lease_2024 :: leaseData where
  "lease_2024 = \<lparr>startDate = 1704067200000, endDate = 1735603200000\<rparr>"

definition lease_reversed :: leaseData where
  "lease_reversed = \<lparr>startDate = 1717200000000, endDate = 1704067200000\<rparr>"

text \<open>The store after user X was assigned to A, and after user Y was assigned as well.\<close>

definition db_after_X :: db where
  "db_after_X =
     snd (assignTenant example_platform 1000 ''T1'' ''userX'' ''A'' lease_2024 example_db)"

definition db_after_Y :: db where
  "db_after_Y =
     snd (assignTenant example_platform 2000 ''T2'' ''userY'' ''A'' lease_2024 db_after_X)"

text \<open>Apartment A as the first assignment leaves it: two occupants, room for two.\<close>

definition apartmentA_after_X :: obj where
  "apartmentA_after_X =
     spread apartmentA [(''currentOccupants'', Num 2), (''updatedAt'', Timestamp 1000)]"

text \<open>
  Apartment L with room for five and three occupants, in a store with one user who has
  no tenancy.
\<close>

definition apartmentL :: obj where
  "apartmentL =
     [(''buildingName'', Str ''North''), (''unitNumber'', Str ''201''), (''floor'', Num 2),
      (''rooms'', Num 4), (''status'', Str ''available''), (''monthlyRent'', Num 2000),
      (''maxOccupants'', Num 5), (''currentOccupants'', Num 3)]"

definition large_db :: db where
  "large_db =
     \<lparr>apartments = [(''L'', apartmentL)],
      tenantApartments = [],
      users = [(''userZ'', [(''name'', Str ''Z'')])],
      writes = []\<rparr>"

text \<open>A store in which user G has an active tenancy of apartment A but no user document.\<close>

definition orphan_db :: db where
  "orphan_db =
     \<lparr>apartments = [(''A'', apartmentA)],
      tenantApartments =
        [(''T0'', [(''userId'', Str ''userG''), (''apartmentId'', Str ''A''),
                   (''status'', Str ''active''), (''role'', Str ''primary'')])],
      users = [],
      writes = []\<rparr>"

text \<open>An input for \<^verbatim>\<open>createApartment\<close> that brings its own occupancy and status.\<close>

definition apartmentB_input :: obj where
  "apartmentB_input =
     [(''unitNumber'', Str ''102''), (''rooms'', Num 3), (''monthlyRent'', Num 900),
      (''maxOccupants'', Num 4), (''currentOccupants'', Num 7), (''status'', Str ''occupied'')]"

lemmas eval_defs =
  assignTenant_def createApartment_def updateApartment_def deleteApartment_def
  getAvailableApartments_def getApartmentTenants_def removeTenant_def
  tenant_with_user_def call_snapshot_def with_id_def
  getDoc_def getDocs_def addDoc_def updateDoc_def deleteDoc_def accepted_def plain_key_def
  document_id_def
  round_double_def timestamp_in_range_def
  spread_def property_def tenantApartmentData_def Let_def
  example_platform_def example_db_def apartmentA_def apartmentA_after_X_def
  apartmentL_def large_db_def orphan_db_def apartmentB_input_def
  lease_2024_def lease_reversed_def db_after_X_def db_after_Y_def

section \<open>Objects and store operations\<close>

lemma map_of_spread: "map_of (spread a b) = map_of a ++ map_of (rev b)"
  unfolding spread_def
  by (induction b arbitrary: a) (simp_all add: update_conv')

lemma property_spread:
  "property (spread a b) k = (case map_of (rev b) k of Some v \<Rightarrow> v | None \<Rightarrow> property a k)"
  by (simp add: property_def map_of_spread map_add_def split: option.splits)

text \<open>A JavaScript object holds each property once; its list then reads the same in both directions.\<close>

lemma map_of_rev_distinct: "distinct (map fst b) \<Longrightarrow> map_of (rev b) = map_of b"
  by (subst map_of_inject_set) (simp_all add: rev_map [symmetric])

lemma property_spread_distinct:
  "distinct (map fst b) \<Longrightarrow>
   property (spread a b) k = (case map_of b k of Some v \<Rightarrow> v | None \<Rightarrow> property a k)"
  by (simp add: property_spread map_of_rev_distinct)

lemma distinct_spread: "distinct (map fst a) \<Longrightarrow> distinct (map fst (spread a b))"
  unfolding spread_def
  by (induction b arbitrary: a) (simp_all add: distinct_update)

lemma strict_eq_Str: "strict_eq v (Str a) = (v = Str a)"
  by (cases v) auto

lemma satisfies_WhereEq_Str: "satisfies d (WhereEq f (Str v)) = (property d f = Str v)"
  by (auto simp add: property_def split: option.splits)

lemma active_query:
  "getDocs s TenantApartments [WhereEq ''userId'' (Str u), WhereEq ''status'' (Str ''active'')] =
     filter (\<lambda>d. property (snd d) ''userId'' = Str u \<and> property (snd d) ''status'' = Str ''active'')
       (tenantApartments s)"
  by (simp add: getDocs_def satisfies_WhereEq_Str del: satisfies.simps)

lemma length_filter_update:
  "length (filter P (AList.update k v xs)) \<le> length (filter P xs) + (if P (k, v) then 1 else 0)"
  by (induction xs) auto

lemma update_member: "(k, v) \<in> set (AList.update k v xs)"
  by (induction xs) auto


text \<open>What a write that goes through does to each collection and to the log.\<close>

lemma addDoc_Inr:
  "addDoc P c i d s = Inr s' \<Longrightarrow>
   accepted P (Added c i d) \<and>
   s' = (set_docs c (AList.update i d (docs s c)) s)\<lparr>writes := writes s @ [Added c i d]\<rparr>"
  by (simp add: addDoc_def split: if_splits)

lemma updateDoc_Inr:
  "updateDoc P c i d s = Inr s' \<Longrightarrow>
   \<exists>new. s' = (set_docs c (AList.update i new (docs s c)) s)\<lparr>writes := writes s @ [Updated c i d]\<rparr>"
  by (auto simp add: updateDoc_def split: if_splits option.splits)

lemma addDoc_tenancies:
  "addDoc P TenantApartments i d s = Inr s' \<Longrightarrow>
   tenantApartments s' = AList.update i d (tenantApartments s)"
  by (auto dest: addDoc_Inr)

lemma updateDoc_apartment_tenancies:
  "updateDoc P Apartments i d s = Inr s' \<Longrightarrow> tenantApartments s' = tenantApartments s"
  by (auto dest: updateDoc_Inr)

lemma updateDoc_user_tenancies:
  "updateDoc P Users i d s = Inr s' \<Longrightarrow> tenantApartments s' = tenantApartments s"
  by (auto dest: updateDoc_Inr)

lemma updateDoc_plain:
  assumes "getDoc s c i = Some old"
    and "accepted P (Updated c i d)"
    and "list_all plain_key (map fst d)"
  shows "updateDoc P c i d s =
     Inr ((set_docs c (AList.update i (spread old d) (docs s c)) s)
            \<lparr>writes := writes s @ [Updated c i d]\<rparr>)"
  using assms by (simp add: updateDoc_def)

lemma updateDoc_error: "updateDoc P c i d s = Inl e \<Longrightarrow> e = InvalidData \<or> e = NoSuchDocument"
  by (auto simp add: updateDoc_def split: if_splits option.splits)

lemma addDoc_error: "addDoc P c i d s = Inl e \<Longrightarrow> e = InvalidData"
  by (auto simp add: addDoc_def split: if_splits)

lemma plus_one_Num: "plus_one P (Num n) = Inr v \<Longrightarrow> v = Num (round_double (n + 1))"
  by simp

section \<open>The outcomes of assignTenant\<close>

text \<open>
  A call that fails one of the four checks throws before the first write and leaves
  the store as it was.
\<close>

lemma assignTenant_no_apartment:
  "getDoc s Apartments aid = None \<Longrightarrow>
   assignTenant P now newId uid aid lease s = (Inl ApartmentNotFound, s)"
  by (simp add: assignTenant_def)

lemma assignTenant_conversion_error:
  "getDoc s Apartments aid = Some apartment \<Longrightarrow>
   js_ge P (property apartment ''currentOccupants'') 3 = Inl e \<Longrightarrow>
   assignTenant P now newId uid aid lease s = (Inl e, s)"
  by (simp add: assignTenant_def)

lemma assignTenant_full:
  "getDoc s Apartments aid = Some apartment \<Longrightarrow>
   js_ge P (property apartment ''currentOccupants'') 3 = Inr True \<Longrightarrow>
   assignTenant P now newId uid aid lease s = (Inl AtMaximumCapacity, s)"
  by (simp add: assignTenant_def)

lemma assignTenant_no_user:
  "getDoc s Apartments aid = Some apartment \<Longrightarrow>
   js_ge P (property apartment ''currentOccupants'') 3 = Inr False \<Longrightarrow>
   getDoc s Users uid = None \<Longrightarrow>
   assignTenant P now newId uid aid lease s = (Inl UserNotFound, s)"
  by (simp add: assignTenant_def)

lemma assignTenant_active:
  "getDoc s Apartments aid = Some apartment \<Longrightarrow>
   js_ge P (property apartment ''currentOccupants'') 3 = Inr False \<Longrightarrow>
   getDoc s Users uid = Some user \<Longrightarrow>
   getDocs s TenantApartments
     [WhereEq ''userId'' (Str uid), WhereEq ''status'' (Str ''active'')] \<noteq> [] \<Longrightarrow>
   assignTenant P now newId uid aid lease s = (Inl UserAlreadyActive, s)"
  by (simp add: assignTenant_def)

text \<open>
  With an active tenancy of the user in the store, the call ends at one of the four
  checks whatever else holds.
\<close>

lemma assignTenant_active_user:
  assumes "getDocs s TenantApartments
     [WhereEq ''userId'' (Str uid), WhereEq ''status'' (Str ''active'')] \<noteq> []"
  shows "snd (assignTenant P now newId uid aid lease s) = s \<and>
         (\<exists>e. fst (assignTenant P now newId uid aid lease s) = Inl e)"
proof (cases "getDoc s Apartments aid")
  case None
  then show ?thesis by (simp add: assignTenant_no_apartment)
next
  case (Some apartment)
  show ?thesis
  proof (cases "js_ge P (property apartment ''currentOccupants'') 3")
    case (Inl e)
    with Some show ?thesis by (simp add: assignTenant_conversion_error)
  next
    case (Inr full)
    show ?thesis
    proof (cases full)
      case True
      with Some Inr show ?thesis by (simp add: assignTenant_full)
    next
      case False
      show ?thesis
      proof (cases "getDoc s Users uid")
        case None
        with Some Inr False show ?thesis by (simp add: assignTenant_no_user)
      next
        case (Some user)
        with \<open>getDoc s Apartments aid = Some apartment\<close> Inr False assms
        show ?thesis by (simp add: assignTenant_active)
      qed
    qed
  qed
qed


text \<open>
  Whatever the outcome, the tenancy collection is either untouched or has gained the
  one new record, and the latter only for a user without an active tenancy.
\<close>

lemma assignTenant_tenancies:
  "tenantApartments (snd (assignTenant P now newId uid aid lease s)) = tenantApartments s \<or>
   (getDocs s TenantApartments
      [WhereEq ''userId'' (Str uid), WhereEq ''status'' (Str ''active'')] = [] \<and>
    (\<exists>apartment. tenantApartments (snd (assignTenant P now newId uid aid lease s)) =
       AList.update newId (tenantApartmentData now uid aid lease apartment) (tenantApartments s)))"
proof -
  show ?thesis
    unfolding assignTenant_def
    by (auto simp add: Let_def split: option.splits sum.splits bool.splits
          dest!: addDoc_tenancies updateDoc_apartment_tenancies updateDoc_user_tenancies)
qed

lemma assignTenant_Inr:
  assumes "fst (assignTenant P now newId uid aid lease s) = Inr r"
  shows "\<exists>apartment. tenantApartments (snd (assignTenant P now newId uid aid lease s)) =
       AList.update newId (tenantApartmentData now uid aid lease apartment) (tenantApartments s)"
proof -
  from assms obtain apartment occupants s1 s2 s3 where
    w1: "addDoc P TenantApartments newId (tenantApartmentData now uid aid lease apartment) s = Inr s1"
    and w2: "updateDoc P Apartments aid
               [(''currentOccupants'', occupants), (''updatedAt'', Timestamp now)] s1 = Inr s2"
    and w3: "updateDoc P Users uid
               [(''apartmentId'', Str aid), (''updatedAt'', Timestamp now)] s2 = Inr s3"
    and r: "snd (assignTenant P now newId uid aid lease s) = s3"
    unfolding assignTenant_def
    by (auto simp add: Let_def split: option.splits sum.splits bool.splits if_splits)
  from addDoc_tenancies [OF w1] updateDoc_apartment_tenancies [OF w2]
    updateDoc_user_tenancies [OF w3] r
  show ?thesis by auto
qed

section \<open>Capacity check of assignTenant\<close>

text \<open>
  Claim C1, as the code has it: for an apartment that exists and whose
  \<open>currentOccupants\<close> is the number \<open>n\<close>, \<^verbatim>\<open>assignTenant\<close> fails with the capacity
  error exactly when \<open>n \<ge> 3\<close>, and passes the capacity check whenever \<open>n < 3\<close>. The
  bound is the literal 3 of the source; the apartment's \<open>maxOccupants\<close> is not read.
\<close>

theorem assignTenant_capacity_literal:
  assumes "getDoc s Apartments aid = Some apartment"
    and "property apartment ''currentOccupants'' = Num n"
  shows "(fst (assignTenant P now newId uid aid lease s) = Inl AtMaximumCapacity) = (n \<ge> 3)"
proof (cases "n \<ge> 3")
  case True
  with assms show ?thesis by (simp add: assignTenant_full)
next
  case False
  have "fst (assignTenant P now newId uid aid lease s) \<noteq> Inl AtMaximumCapacity"
    using assms False unfolding assignTenant_def
    by (auto simp add: Let_def split: option.splits sum.splits
             dest: addDoc_error updateDoc_error)
  with False show ?thesis by simp
qed

theorem assignTenant_capacity_literal_witness:
  "(fst (assignTenant example_platform 3000 ''T3'' ''userX'' ''A'' lease_2024 db_after_Y) =
      Inl AtMaximumCapacity) = ((3::int) \<ge> 3)"
proof -
  obtain a where h1: "getDoc db_after_Y Apartments ''A'' = Some a"
    and h2: "property a ''currentOccupants'' = Num 3"
    by (simp add: eval_defs)
  from assignTenant_capacity_literal [OF h1 h2] show ?thesis .
qed

text \<open>
  Claim C1 as stated fails: after the first assignment apartment A holds two occupants
  and has \<open>maxOccupants = 2\<close>, yet assigning user Y to it succeeds.
\<close>

theorem assignTenant_capacity_counterexample:
  "getDoc db_after_X Apartments ''A'' = Some apartmentA_after_X \<and>
   property apartmentA_after_X ''currentOccupants'' = Num 2 \<and>
   property apartmentA_after_X ''maxOccupants'' = Num 2 \<and>
   fst (assignTenant example_platform 2000 ''T2'' ''userY'' ''A'' lease_2024 db_after_X) =
     Inr ((''id'', Str ''T2'') # tenantApartmentData 2000 ''userY'' ''A'' lease_2024 apartmentA_after_X)"
  by (simp add: eval_defs)

section \<open>Lease dates\<close>

text \<open>
  Claim C2 (lease end before lease start is rejected before any write): the source has
  no comparison of the two dates. On the example store the lease from 1 June 2024 to
  1 January 2024 is accepted and all three writes are issued.
\<close>

theorem assignTenant_reversed_lease_accepted:
  "endDate lease_reversed < startDate lease_reversed \<and>
   fst (assignTenant example_platform 1000 ''T1'' ''userX'' ''A'' lease_reversed example_db) =
     Inr ((''id'', Str ''T1'') # tenantApartmentData 1000 ''userX'' ''A'' lease_reversed apartmentA) \<and>
   writes (snd (assignTenant example_platform 1000 ''T1'' ''userX'' ''A'' lease_reversed example_db)) =
     [Added TenantApartments ''T1'' (tenantApartmentData 1000 ''userX'' ''A'' lease_reversed apartmentA),
      Updated Apartments ''A'' [(''currentOccupants'', Num 2), (''updatedAt'', Timestamp 1000)],
      Updated Users ''userX'' [(''apartmentId'', Str ''A''), (''updatedAt'', Timestamp 1000)]]"
  by (simp add: eval_defs)

section \<open>A user with an active tenancy\<close>

text \<open>
  Claim C3, as the code has it. When the user already has a tenancy record with status
  active, \<^verbatim>\<open>assignTenant\<close> fails and leaves the store as it was, and the error is that
  of the first check that fails, in the order of the source: \<open>ApartmentNotFound\<close> when
  the apartment is missing; else the capacity error when \<^verbatim>\<open>currentOccupants >= 3\<close>
  holds (for a number \<open>n\<close> that is \<open>n \<ge> 3\<close>), or the TypeError of that comparison;
  else \<open>UserNotFound\<close> when the user document is missing; else \<open>UserAlreadyActive\<close>.
  The two not-found errors are stated for identifiers that name a document.
  A call that succeeds leaves the user with an active tenancy, so every later call for
  the same user on the store it leaves fails and changes nothing. A store in which
  every user has at most one active tenancy record is still such a store after any
  call of \<^verbatim>\<open>assignTenant\<close>.
\<close>

theorem assignTenant_rejects_active_user:
  "((\<exists>d \<in> set (tenantApartments s).
        property (snd d) ''userId'' = Str uid \<and> property (snd d) ''status'' = Str ''active'') \<longrightarrow>
      (\<exists>e. fst (assignTenant P now newId uid aid lease s) = Inl e) \<and>
      snd (assignTenant P now newId uid aid lease s) = s \<and>
      (document_id aid \<and> getDoc s Apartments aid = None \<longrightarrow>
         fst (assignTenant P now newId uid aid lease s) = Inl ApartmentNotFound) \<and>
      (\<forall>apartment. getDoc s Apartments aid = Some apartment \<longrightarrow>
         (\<forall>e. js_ge P (property apartment ''currentOccupants'') 3 = Inl e \<longrightarrow>
               fst (assignTenant P now newId uid aid lease s) = Inl e) \<and>
         (js_ge P (property apartment ''currentOccupants'') 3 = Inr True \<longrightarrow>
            fst (assignTenant P now newId uid aid lease s) = Inl AtMaximumCapacity) \<and>
         (js_ge P (property apartment ''currentOccupants'') 3 = Inr False \<and>
          document_id uid \<and> getDoc s Users uid = None \<longrightarrow>
            fst (assignTenant P now newId uid aid lease s) = Inl UserNotFound) \<and>
         (js_ge P (property apartment ''currentOccupants'') 3 = Inr False \<and>
          getDoc s Users uid \<noteq> None \<longrightarrow>
            fst (assignTenant P now newId uid aid lease s) = Inl UserAlreadyActive))) \<and>
   ((\<exists>r. fst (assignTenant P now newId uid aid lease s) = Inr r) \<longrightarrow>
      (\<exists>e. fst (assignTenant P now' newId' uid aid' lease'
                  (snd (assignTenant P now newId uid aid lease s))) = Inl e) \<and>
      snd (assignTenant P now' newId' uid aid' lease'
             (snd (assignTenant P now newId uid aid lease s))) =
        snd (assignTenant P now newId uid aid lease s)) \<and>
   ((\<forall>u. length (filter (\<lambda>d. property (snd d) ''userId'' = Str u \<and>
                            property (snd d) ''status'' = Str ''active'')
                    (tenantApartments s)) \<le> 1) \<longrightarrow>
    (\<forall>u. length (filter (\<lambda>d. property (snd d) ''userId'' = Str u \<and>
                            property (snd d) ''status'' = Str ''active'')
                    (tenantApartments (snd (assignTenant P now newId uid aid lease s)))) \<le> 1))"
proof (intro conjI impI allI)
  let ?P = "\<lambda>u d. property (snd d) ''userId'' = Str u \<and> property (snd d) ''status'' = Str ''active''"
  let ?data = "\<lambda>apartment. tenantApartmentData now uid aid lease apartment"
  let ?after = "tenantApartments (snd (assignTenant P now newId uid aid lease s))"
  {
    assume act: "\<exists>d \<in> set (tenantApartments s). ?P uid d"
    then have q: "getDocs s TenantApartments
           [WhereEq ''userId'' (Str uid), WhereEq ''status'' (Str ''active'')] \<noteq> []"
      by (simp add: active_query filter_empty_conv)
    show "\<exists>e. fst (assignTenant P now newId uid aid lease s) = Inl e"
      using assignTenant_active_user [OF q] by simp
    show "snd (assignTenant P now newId uid aid lease s) = s"
      using assignTenant_active_user [OF q] by simp
    {
      assume "document_id aid \<and> getDoc s Apartments aid = None"
      then show "fst (assignTenant P now newId uid aid lease s) = Inl ApartmentNotFound"
        by (simp add: assignTenant_no_apartment)
    }
    {
      fix apartment
      assume a: "getDoc s Apartments aid = Some apartment"
      {
        fix e
        assume "js_ge P (property apartment ''currentOccupants'') 3 = Inl e"
        with a show "fst (assignTenant P now newId uid aid lease s) = Inl e"
          by (simp add: assignTenant_conversion_error)
      }
      {
        assume "js_ge P (property apartment ''currentOccupants'') 3 = Inr True"
        with a show "fst (assignTenant P now newId uid aid lease s) = Inl AtMaximumCapacity"
          by (simp add: assignTenant_full)
      }
      {
        assume "js_ge P (property apartment ''currentOccupants'') 3 = Inr False \<and>
                document_id uid \<and> getDoc s Users uid = None"
        with a show "fst (assignTenant P now newId uid aid lease s) = Inl UserNotFound"
          by (simp add: assignTenant_no_user)
      }
      {
        assume "js_ge P (property apartment ''currentOccupants'') 3 = Inr False \<and>
                getDoc s Users uid \<noteq> None"
        with a q show "fst (assignTenant P now newId uid aid lease s) = Inl UserAlreadyActive"
          by (auto simp add: assignTenant_active)
      }
    }
  }
  {
    assume "\<exists>r. fst (assignTenant P now newId uid aid lease s) = Inr r"
    then obtain r where "fst (assignTenant P now newId uid aid lease s) = Inr r" ..
    from assignTenant_Inr [OF this] obtain apartment where
      t: "?after = AList.update newId (?data apartment) (tenantApartments s)" ..
    have m: "(newId, ?data apartment) \<in> set ?after"
      unfolding t by (rule update_member)
    have p: "?P uid (newId, ?data apartment)"
      by (simp add: tenantApartmentData_def property_def)
    have "filter (?P uid) ?after \<noteq> []"
    proof
      assume "filter (?P uid) ?after = []"
      then have "\<forall>d \<in> set ?after. \<not> ?P uid d"
        by (simp only: filter_empty_conv)
      then have "\<not> ?P uid (newId, ?data apartment)"
        using m by (rule bspec)
      with p show False by simp
    qed
    then have q: "getDocs (snd (assignTenant P now newId uid aid lease s)) TenantApartments
           [WhereEq ''userId'' (Str uid), WhereEq ''status'' (Str ''active'')] \<noteq> []"
      by (simp add: active_query)
    show "\<exists>e. fst (assignTenant P now' newId' uid aid' lease'
                  (snd (assignTenant P now newId uid aid lease s))) = Inl e"
      using assignTenant_active_user [OF q] by simp
    show "snd (assignTenant P now' newId' uid aid' lease'
             (snd (assignTenant P now newId uid aid lease s))) =
        snd (assignTenant P now newId uid aid lease s)"
      using assignTenant_active_user [OF q] by simp
  }
  {
    fix u
    assume inv: "\<forall>u. length (filter (?P u) (tenantApartments s)) \<le> 1"
    from assignTenant_tenancies [of P now newId uid aid lease s]
    show "length (filter (?P u) ?after) \<le> 1"
    proof
      assume "?after = tenantApartments s"
      then show ?thesis using inv by simp
    next
      assume "getDocs s TenantApartments
          [WhereEq ''userId'' (Str uid), WhereEq ''status'' (Str ''active'')] = [] \<and>
        (\<exists>apartment. ?after = AList.update newId (?data apartment) (tenantApartments s))"
      then obtain apartment where e: "filter (?P uid) (tenantApartments s) = []"
        and t: "?after = AList.update newId (?data apartment) (tenantApartments s)"
        by (auto simp add: active_query)
      have le: "length (filter (?P u) (AList.update newId (?data apartment) (tenantApartments s)))
            \<le> length (filter (?P u) (tenantApartments s)) + (if u = uid then 1 else 0)"
        using length_filter_update [of "?P u" newId "?data apartment" "tenantApartments s"]
        by (auto simp add: tenantApartmentData_def property_def split: if_splits)
      show ?thesis
      proof (cases "u = uid")
        case True
        with le e show ?thesis unfolding t by simp
      next
        case False
        with le inv [rule_format, of u] show ?thesis unfolding t by simp
      qed
    qed
  }
qed

theorem assignTenant_rejects_active_user_witness:
  "fst (assignTenant example_platform 2000 ''T2'' ''userX'' ''A'' lease_2024 db_after_X) =
     Inl UserAlreadyActive \<and>
   snd (assignTenant example_platform 2000 ''T2'' ''userX'' ''A'' lease_2024 db_after_X) = db_after_X \<and>
   fst (assignTenant example_platform 3000 ''T3'' ''userY'' ''A'' lease_2024 db_after_Y) =
     Inl AtMaximumCapacity \<and>
   fst (assignTenant example_platform 3000 ''T3'' ''userY'' ''B'' lease_2024 db_after_Y) =
     Inl ApartmentNotFound \<and>
   fst (assignTenant example_platform 4000 ''T4'' ''userG'' ''A'' lease_2024 orphan_db) =
     Inl UserNotFound \<and>
   (\<exists>e. fst (assignTenant example_platform 5000 ''T5'' ''userX'' ''A'' lease_reversed
                (snd (assignTenant example_platform 1000 ''T1'' ''userX'' ''A'' lease_2024 example_db))) =
           Inl e) \<and>
   length (filter (\<lambda>d. property (snd d) ''userId'' = Str ''userX'' \<and>
                        property (snd d) ''status'' = Str ''active'')
             (tenantApartments
                (snd (assignTenant example_platform 2000 ''T2'' ''userY'' ''A'' lease_2024 db_after_X))))
     \<le> 1"
proof -
  have x1: "\<exists>d \<in> set (tenantApartments db_after_X).
        property (snd d) ''userId'' = Str ''userX'' \<and> property (snd d) ''status'' = Str ''active''"
    by (simp add: eval_defs)
  obtain a where x2: "getDoc db_after_X Apartments ''A'' = Some a"
    and x3: "js_ge example_platform (property a ''currentOccupants'') 3 = Inr False"
    by (simp add: eval_defs)
  have x4: "getDoc db_after_X Users ''userX'' \<noteq> None"
    by (simp add: eval_defs)
  have y1: "\<exists>d \<in> set (tenantApartments db_after_Y).
        property (snd d) ''userId'' = Str ''userY'' \<and> property (snd d) ''status'' = Str ''active''"
    by (simp add: eval_defs)
  obtain b where y2: "getDoc db_after_Y Apartments ''A'' = Some b"
    and y3: "js_ge example_platform (property b ''currentOccupants'') 3 = Inr True"
    by (simp add: eval_defs)
  have y4: "document_id ''B'' \<and> getDoc db_after_Y Apartments ''B'' = None"
    by (simp add: eval_defs)
  have g1: "\<exists>d \<in> set (tenantApartments orphan_db).
        property (snd d) ''userId'' = Str ''userG'' \<and> property (snd d) ''status'' = Str ''active''"
    by (simp add: eval_defs)
  obtain g where g2: "getDoc orphan_db Apartments ''A'' = Some g"
    and g3: "js_ge example_platform (property g ''currentOccupants'') 3 = Inr False"
    by (simp add: eval_defs)
  have g4: "document_id ''userG'' \<and> getDoc orphan_db Users ''userG'' = None"
    by (simp add: eval_defs)
  have z1: "\<exists>r. fst (assignTenant example_platform 1000 ''T1'' ''userX'' ''A'' lease_2024 example_db) =
              Inr r"
    by (simp add: eval_defs)
  have inv: "\<forall>u. length (filter (\<lambda>d. property (snd d) ''userId'' = Str u \<and>
                            property (snd d) ''status'' = Str ''active'')
                    (tenantApartments db_after_X)) \<le> 1"
    by (simp add: eval_defs)
  from assignTenant_rejects_active_user
         [of db_after_X "''userX''" example_platform 2000 "''T2''" "''A''" lease_2024] x1 x2 x3 x4
  have c1: "fst (assignTenant example_platform 2000 ''T2'' ''userX'' ''A'' lease_2024 db_after_X) =
              Inl UserAlreadyActive"
    and c2: "snd (assignTenant example_platform 2000 ''T2'' ''userX'' ''A'' lease_2024 db_after_X) =
              db_after_X"
    by blast+
  from assignTenant_rejects_active_user
         [of db_after_Y "''userY''" example_platform 3000 "''T3''" "''A''" lease_2024] y1 y2 y3
  have c3: "fst (assignTenant example_platform 3000 ''T3'' ''userY'' ''A'' lease_2024 db_after_Y) =
              Inl AtMaximumCapacity"
    by blast
  from assignTenant_rejects_active_user
         [of db_after_Y "''userY''" example_platform 3000 "''T3''" "''B''" lease_2024] y1 y4
  have c4: "fst (assignTenant example_platform 3000 ''T3'' ''userY'' ''B'' lease_2024 db_after_Y) =
              Inl ApartmentNotFound"
    by blast
  from assignTenant_rejects_active_user
         [of orphan_db "''userG''" example_platform 4000 "''T4''" "''A''" lease_2024] g1 g2 g3 g4
  have c7: "fst (assignTenant example_platform 4000 ''T4'' ''userG'' ''A'' lease_2024 orphan_db) =
              Inl UserNotFound"
    by blast
  from assignTenant_rejects_active_user
         [of example_db "''userX''" example_platform 1000 "''T1''" "''A''" lease_2024
             5000 "''T5''" "''A''" lease_reversed] z1
  have c5: "\<exists>e. fst (assignTenant example_platform 5000 ''T5'' ''userX'' ''A'' lease_reversed
                (snd (assignTenant example_platform 1000 ''T1'' ''userX'' ''A'' lease_2024 example_db))) =
           Inl e"
    by blast
  from assignTenant_rejects_active_user
         [of db_after_X "''userY''" example_platform 2000 "''T2''" "''A''" lease_2024] inv
  have c6: "length (filter (\<lambda>d. property (snd d) ''userId'' = Str ''userX'' \<and>
                        property (snd d) ''status'' = Str ''active'')
             (tenantApartments
                (snd (assignTenant example_platform 2000 ''T2'' ''userY'' ''A'' lease_2024 db_after_X))))
     \<le> 1"
    by blast
  from c1 c2 c3 c4 c5 c6 c7 show ?thesis by blast
qed

text \<open>
  Claim C3 as stated fails: user Y is assigned to apartment A, which then holds three
  occupants; the next call for user Y fails with the capacity error, not with
  \<open>UserAlreadyActive\<close>, because the capacity check comes first.
\<close>

theorem assignTenant_second_call_counterexample:
  "fst (assignTenant example_platform 2000 ''T2'' ''userY'' ''A'' lease_2024 db_after_X) =
     Inr ((''id'', Str ''T2'') # tenantApartmentData 2000 ''userY'' ''A'' lease_2024 apartmentA) \<and>
   db_after_Y = snd (assignTenant example_platform 2000 ''T2'' ''userY'' ''A'' lease_2024 db_after_X) \<and>
   getDocs db_after_Y TenantApartments
     [WhereEq ''userId'' (Str ''userY''), WhereEq ''status'' (Str ''active'')] =
     [(''T2'', tenantApartmentData 2000 ''userY'' ''A'' lease_2024 apartmentA)] \<and>
   fst (assignTenant example_platform 3000 ''T3'' ''userY'' ''A'' lease_2024 db_after_Y) =
     Inl AtMaximumCapacity \<and>
   Inl AtMaximumCapacity \<noteq> (Inl UserAlreadyActive :: error + obj)"
  by (simp add: eval_defs)

section \<open>The three writes of a successful assignment\<close>




section \<open>Tenants of an apartment\<close>

text \<open>
  As soon as the query finds a tenancy, the callback calls the snapshot and the whole
  call is rejected; an apartment without active tenancy gives the empty list.
\<close>

lemma getApartmentTenants_outcome:
  "fst (getApartmentTenants apartmentId s) =
     (if getDocs s TenantApartments
           [WhereEq ''apartmentId'' (Str apartmentId), WhereEq ''status'' (Str ''active'')] = []
      then Inr [] else Inl NotAFunction)"
  by (cases "getDocs s TenantApartments
           [WhereEq ''apartmentId'' (Str apartmentId), WhereEq ''status'' (Str ''active'')]")
     (simp_all add: getApartmentTenants_def tenant_with_user_def call_snapshot_def)

text \<open>
  Claim C5 (the active tenancies of the apartment, each with its user record; one
  record after one assignment): after user X was assigned to apartment A the query
  finds that one tenancy, and the call throws instead of returning it.
\<close>

theorem getApartmentTenants_throws_after_assignment:
  "getDocs db_after_X TenantApartments
     [WhereEq ''apartmentId'' (Str ''A''), WhereEq ''status'' (Str ''active'')] =
     [(''T1'', tenantApartmentData 1000 ''userX'' ''A'' lease_2024 apartmentA)] \<and>
   getApartmentTenants ''A'' db_after_X = (Inl NotAFunction, db_after_X)"
  by (simp add: eval_defs)

section \<open>Removing a tenant\<close>



section \<open>Available apartments\<close>

text \<open>
  Claim C7: \<^verbatim>\<open>getAvailableApartments\<close> returns exactly the apartments whose
  \<open>currentOccupants\<close> is a number below 3, in the store's order, each as its identifier
  and data; overwriting every apartment's \<open>maxOccupants\<close> by any value \<open>m\<close> selects
  the same apartments.
\<close>

theorem getAvailableApartments_fixed_threshold:
  "getAvailableApartments s =
     (Inr (map with_id
             (filter (\<lambda>d. \<exists>n. property (snd d) ''currentOccupants'' = Num n \<and> n < 3)
                (apartments s))), s) \<and>
   fst (getAvailableApartments
          (s\<lparr>apartments := map (\<lambda>d. (fst d, AList.update ''maxOccupants'' m (snd d))) (apartments s)\<rparr>)) =
     Inr (map with_id
            (map (\<lambda>d. (fst d, AList.update ''maxOccupants'' m (snd d)))
               (filter (\<lambda>d. \<exists>n. property (snd d) ''currentOccupants'' = Num n \<and> n < 3)
                  (apartments s))))"
proof -
  have sat: "satisfies d (WhereLt ''currentOccupants'' 3) =
               (\<exists>n. property d ''currentOccupants'' = Num n \<and> n < 3)" for d
    by (auto simp add: property_def split: option.splits jsval.splits)
  have upd: "property (AList.update ''maxOccupants'' m d) ''currentOccupants'' =
               property d ''currentOccupants''" for d
    by (simp add: property_def update_conv')
  show ?thesis
    by (simp add: getAvailableApartments_def getDocs_def sat filter_map o_def upd
          del: satisfies.simps)
qed

theorem getAvailableApartments_fixed_threshold_witness:
  "fst (getAvailableApartments db_after_X) = Inr [(''id'', Str ''A'') # apartmentA_after_X] \<and>
   property apartmentA_after_X ''currentOccupants'' = property apartmentA_after_X ''maxOccupants'' \<and>
   fst (getAvailableApartments db_after_Y) = Inr []"
  using getAvailableApartments_fixed_threshold [of db_after_X "Num 5"]
    getAvailableApartments_fixed_threshold [of db_after_Y "Num 5"]
  by (simp add: eval_defs)

section \<open>Deleting an apartment\<close>

text \<open>
  Claim C8: \<^verbatim>\<open>deleteApartment\<close> succeeds only when no tenancy record with status active
  refers to the apartment (the apartment existed and is gone afterwards); when such a
  record exists the call fails and the store, the apartment document included, is
  unchanged.
\<close>

theorem deleteApartment_only_without_active_tenants:
  "(fst (deleteApartment apartmentId s) = Inr () \<longrightarrow>
      \<not> (\<exists>d \<in> set (tenantApartments s).
            property (snd d) ''apartmentId'' = Str apartmentId \<and>
            property (snd d) ''status'' = Str ''active'') \<and>
      getDoc s Apartments apartmentId \<noteq> None \<and>
      getDoc (snd (deleteApartment apartmentId s)) Apartments apartmentId = None) \<and>
   ((\<exists>d \<in> set (tenantApartments s).
        property (snd d) ''apartmentId'' = Str apartmentId \<and>
        property (snd d) ''status'' = Str ''active'') \<longrightarrow>
      (\<exists>e. fst (deleteApartment apartmentId s) = Inl e) \<and>
      snd (deleteApartment apartmentId s) = s)"
proof -
  let ?act = "filter (\<lambda>d. strict_eq (property (snd d) ''apartmentId'') (Str apartmentId) \<and>
                          strict_eq (property (snd d) ''status'') (Str ''active''))
                (tenantApartments s)"
  have act: "(?act \<noteq> []) = (\<exists>d \<in> set (tenantApartments s).
            property (snd d) ''apartmentId'' = Str apartmentId \<and>
            property (snd d) ''status'' = Str ''active'')"
    by (simp add: filter_empty_conv strict_eq_Str)
  have del: "getDoc (deleteDoc Apartments apartmentId s) Apartments apartmentId = None"
    by (simp add: getDoc_def deleteDoc_def delete_conv')
  show ?thesis
    using act del
    by (cases "getDoc s Apartments apartmentId")
       (auto simp add: deleteApartment_def Let_def getDocs_def)
qed

theorem deleteApartment_only_without_active_tenants_witness:
  "fst (deleteApartment ''A'' db_after_X) = Inl ActiveTenantsPresent \<and>
   snd (deleteApartment ''A'' db_after_X) = db_after_X \<and>
   fst (deleteApartment ''A'' example_db) = Inr () \<and>
   getDoc example_db Apartments ''A'' \<noteq> None \<and>
   getDoc (snd (deleteApartment ''A'' example_db)) Apartments ''A'' = None"
proof -
  have p1: "\<exists>d \<in> set (tenantApartments db_after_X).
        property (snd d) ''apartmentId'' = Str ''A'' \<and> property (snd d) ''status'' = Str ''active''"
    by (simp add: eval_defs)
  have p2: "fst (deleteApartment ''A'' example_db) = Inr ()"
    by (simp add: eval_defs)
  have p3: "fst (deleteApartment ''A'' db_after_X) = Inl ActiveTenantsPresent"
    by (simp add: eval_defs)
  from deleteApartment_only_without_active_tenants [of "''A''" db_after_X]
    deleteApartment_only_without_active_tenants [of "''A''" example_db] p1 p2 p3
  show ?thesis by blast
qed

section \<open>A new apartment is empty and available\<close>

text \<open>
  Claim C9: whatever the input object holds, an apartment that \<^verbatim>\<open>createApartment\<close>
  creates has \<open>currentOccupants = 0\<close> and \<open>status = 'available'\<close>, in the record returned
  and in the document stored: both are written after the input is spread.
\<close>

theorem createApartment_initial_occupancy:
  assumes wf: "distinct (map fst apartmentData)"
    and ok: "createApartment P now newId apartmentData s = (Inr created, s')"
  shows "property created ''currentOccupants'' = Num 0 \<and>
         property created ''status'' = Str ''available'' \<and>
         (\<exists>stored. getDoc s' Apartments newId = Some stored \<and>
            property stored ''currentOccupants'' = Num 0 \<and>
            property stored ''status'' = Str ''available'')"
proof -
  let ?new = "spread apartmentData
                [(''status'', Str ''available''), (''currentOccupants'', Num 0),
                 (''createdAt'', Timestamp now), (''updatedAt'', Timestamp now)]"
  from ok have c: "created = spread [(''id'', Str newId)] ?new"
    and a: "addDoc P Apartments newId ?new s = Inr s'"
    by (auto simp add: createApartment_def Let_def split: if_splits option.splits sum.splits)
  have d: "distinct (map fst ?new)" using wf by (rule distinct_spread)
  have p1: "property ?new ''currentOccupants'' = Num 0"
    and p2: "property ?new ''status'' = Str ''available''"
    by (simp_all add: property_spread)
  have m1: "map_of ?new ''currentOccupants'' = Some (Num 0)"
    and m2: "map_of ?new ''status'' = Some (Str ''available'')"
    by (simp_all add: map_of_spread)
  have "property created ''currentOccupants'' = Num 0"
    unfolding c by (simp add: property_spread_distinct [OF d] m1)
  moreover have "property created ''status'' = Str ''available''"
    unfolding c by (simp add: property_spread_distinct [OF d] m2)
  moreover have "getDoc s' Apartments newId = Some ?new"
    using addDoc_Inr [OF a] by (simp add: getDoc_def update_conv')
  ultimately show ?thesis using p1 p2 by simp
qed

theorem createApartment_initial_occupancy_witness:
  "property apartmentB_input ''currentOccupants'' = Num 7 \<and>
   property apartmentB_input ''status'' = Str ''occupied'' \<and>
   (\<exists>created s'. createApartment example_platform 500 ''B'' apartmentB_input example_db =
                    (Inr created, s') \<and>
      property created ''currentOccupants'' = Num 0 \<and>
      property created ''status'' = Str ''available'')"
proof -
  have wf: "distinct (map fst apartmentB_input)"
    by (simp add: apartmentB_input_def)
  obtain created s' where
    ok: "createApartment example_platform 500 ''B'' apartmentB_input example_db = (Inr created, s')"
    by (simp add: eval_defs)
  have inp: "property apartmentB_input ''currentOccupants'' = Num 7 \<and>
             property apartmentB_input ''status'' = Str ''occupied''"
    by (simp add: apartmentB_input_def property_def)
  from createApartment_initial_occupancy [OF wf ok] ok inp show ?thesis by blast
qed

section \<open>Zero in an update\<close>

text \<open>
  Claim C10, as the code has it. In \<^verbatim>\<open>updateApartment\<close> a value 0 for \<open>floor\<close>, \<open>rooms\<close>,
  \<open>monthlyRent\<close> or \<open>maxOccupants\<close> is falsy, so the validation of that field is
  skipped: the call never fails with that field's error. The update is written, and
  the stored apartment then holds 0 in that field, when nothing else stops it: the
  apartment exists, each of the four numeric fields is absent, falsy or a positive
  number, the unit number is absent or not taken by another apartment, the clock is in
  the range of store timestamps, the keys of the update are field names, and the
  client accepts the data (no property of it is undefined).
\<close>

theorem updateApartment_zero_skips_validation:
  assumes wf: "distinct (map fst updateData)"
    and f: "f \<in> {''floor'', ''rooms'', ''monthlyRent'', ''maxOccupants''}"
    and zero: "property updateData f = Num 0"
  shows "(f = ''floor'' \<longrightarrow> fst (updateApartment P now aid updateData s) \<noteq> Inl InvalidFloor) \<and>
         (f = ''rooms'' \<longrightarrow> fst (updateApartment P now aid updateData s) \<noteq> Inl InvalidRooms) \<and>
         (f = ''monthlyRent'' \<longrightarrow>
            fst (updateApartment P now aid updateData s) \<noteq> Inl InvalidMonthlyRent) \<and>
         (f = ''maxOccupants'' \<longrightarrow>
            fst (updateApartment P now aid updateData s) \<noteq> Inl InvalidMaxOccupants) \<and>
         (getDoc s Apartments aid \<noteq> None \<and>
          (\<forall>g \<in> {''floor'', ''rooms'', ''monthlyRent'', ''maxOccupants''}.
              \<not> truthy (property updateData g) \<or> \<not> not_positive_number (property updateData g)) \<and>
          (\<not> truthy (property updateData ''unitNumber'') \<or>
           (\<forall>d \<in> set (apartments s). fst d = aid \<or>
              \<not> strict_eq (property (snd d) ''unitNumber'') (property updateData ''unitNumber''))) \<and>
          timestamp_in_range now \<and>
          list_all plain_key (map fst updateData) \<and>
          accepted P (Updated Apartments aid
                         (spread updateData [(''updatedAt'', Timestamp now)])) \<longrightarrow>
          fst (updateApartment P now aid updateData s) =
            Inr (spread [(''id'', Str aid)] (spread updateData [(''updatedAt'', Timestamp now)])) \<and>
          property (spread [(''id'', Str aid)] (spread updateData [(''updatedAt'', Timestamp now)])) f =
            Num 0 \<and>
          writes (snd (updateApartment P now aid updateData s)) =
            writes s @ [Updated Apartments aid (spread updateData [(''updatedAt'', Timestamp now)])] \<and>
          (\<exists>stored. getDoc (snd (updateApartment P now aid updateData s)) Apartments aid = Some stored \<and>
             property stored f = Num 0))"
proof -
  let ?r = "updateApartment P now aid updateData s"
  let ?upd = "spread updateData [(''updatedAt'', Timestamp now)]"
  have skip: "\<not> truthy (property updateData f)" using zero by simp
  have e1: "f = ''floor'' \<longrightarrow> fst ?r \<noteq> Inl InvalidFloor"
    using skip
    by (auto simp add: updateApartment_def Let_def split: option.splits sum.splits
             dest: updateDoc_error)
  have e2: "f = ''rooms'' \<longrightarrow> fst ?r \<noteq> Inl InvalidRooms"
    using skip
    by (auto simp add: updateApartment_def Let_def split: option.splits sum.splits
             dest: updateDoc_error)
  have e3: "f = ''monthlyRent'' \<longrightarrow> fst ?r \<noteq> Inl InvalidMonthlyRent"
    using skip
    by (auto simp add: updateApartment_def Let_def split: option.splits sum.splits
             dest: updateDoc_error)
  have e4: "f = ''maxOccupants'' \<longrightarrow> fst ?r \<noteq> Inl InvalidMaxOccupants"
    using skip
    by (auto simp add: updateApartment_def Let_def split: option.splits sum.splits
             dest: updateDoc_error)
  have d: "distinct (map fst ?upd)" using wf by (rule distinct_spread)
  have mf: "map_of updateData f = Some (Num 0)"
    using zero by (simp add: property_def split: option.splits)
  have fu: "f \<noteq> ''updatedAt''" using f by auto
  have m: "map_of ?upd f = Some (Num 0)"
    using mf fu by (simp add: map_of_spread map_add_def)
  have p: "property (spread a ?upd) f = Num 0" for a
    by (simp add: property_spread_distinct [OF d] m)
  have w: "fst ?r = Inr (spread [(''id'', Str aid)] ?upd) \<and>
      writes (snd ?r) = writes s @ [Updated Apartments aid ?upd] \<and>
      (\<exists>stored. getDoc (snd ?r) Apartments aid = Some stored \<and> property stored f = Num 0)"
    if ex: "getDoc s Apartments aid \<noteq> None"
      and num: "\<forall>g \<in> {''floor'', ''rooms'', ''monthlyRent'', ''maxOccupants''}.
              \<not> truthy (property updateData g) \<or> \<not> not_positive_number (property updateData g)"
      and unit: "\<not> truthy (property updateData ''unitNumber'') \<or>
           (\<forall>d \<in> set (apartments s). fst d = aid \<or>
              \<not> strict_eq (property (snd d) ''unitNumber'') (property updateData ''unitNumber''))"
      and clock: "timestamp_in_range now"
      and keys: "list_all plain_key (map fst updateData)"
      and acc: "accepted P (Updated Apartments aid ?upd)"
  proof -
    from ex obtain apartment where a: "getDoc s Apartments aid = Some apartment" by auto
    have fnd: "truthy (property updateData ''unitNumber'') \<Longrightarrow>
          find (\<lambda>d. fst d \<noteq> aid \<and>
                     strict_eq (property (snd d) ''unitNumber'') (property updateData ''unitNumber''))
               (getDocs s Apartments []) = None"
      using unit by (auto simp add: find_None_iff getDocs_def)
    have "fst ` set ?upd = insert ''updatedAt'' (fst ` set updateData)"
      by (simp add: spread_def dom_update)
    then have k: "list_all plain_key (map fst ?upd)"
      using keys by (auto simp add: list_all_iff plain_key_def)
    note u = updateDoc_plain [OF a acc k]
    have r: "?r = (Inr (spread [(''id'', Str aid)] ?upd),
                   (set_docs Apartments (AList.update aid (spread apartment ?upd) (docs s Apartments)) s)
                     \<lparr>writes := writes s @ [Updated Apartments aid ?upd]\<rparr>)"
      using a num fnd clock by (auto simp add: updateApartment_def Let_def u)
    show ?thesis
      unfolding r by (simp add: getDoc_def update_conv' p)
  qed
  from e1 e2 e3 e4 w p show ?thesis by blast
qed

theorem updateApartment_zero_skips_validation_witness:
  "fst (updateApartment example_platform 700 ''A'' [(''maxOccupants'', Num 0)] example_db) =
     Inr [(''id'', Str ''A''), (''maxOccupants'', Num 0), (''updatedAt'', Timestamp 700)] \<and>
   writes (snd (updateApartment example_platform 700 ''A'' [(''maxOccupants'', Num 0)] example_db)) =
     [Updated Apartments ''A'' [(''maxOccupants'', Num 0), (''updatedAt'', Timestamp 700)]] \<and>
   (\<exists>stored. getDoc (snd (updateApartment example_platform 700 ''A'' [(''maxOccupants'', Num 0)]
                             example_db))
        Apartments ''A'' = Some stored \<and>
      property stored ''maxOccupants'' = Num 0)"
proof -
  have wf: "distinct (map fst [(''maxOccupants'', Num 0)])" by simp
  have f: "''maxOccupants'' \<in> {''floor'', ''rooms'', ''monthlyRent'', ''maxOccupants''}" by simp
  have zero: "property [(''maxOccupants'', Num 0)] ''maxOccupants'' = Num 0"
    by (simp add: property_def)
  have ex: "getDoc example_db Apartments ''A'' \<noteq> None"
    by (simp add: example_db_def getDoc_def)
  have num: "\<forall>g \<in> {''floor'', ''rooms'', ''monthlyRent'', ''maxOccupants''}.
      \<not> truthy (property [(''maxOccupants'', Num 0)] g) \<or>
      \<not> not_positive_number (property [(''maxOccupants'', Num 0)] g)"
    by (simp add: property_def)
  have unit: "\<not> truthy (property [(''maxOccupants'', Num 0)] ''unitNumber'')"
    by (simp add: property_def)
  have clock: "timestamp_in_range 700"
    by (simp add: timestamp_in_range_def)
  have keys: "list_all plain_key (map fst [(''maxOccupants'', Num 0)])"
    by (simp add: plain_key_def)
  have acc: "accepted example_platform (Updated Apartments ''A''
                (spread [(''maxOccupants'', Num 0)] [(''updatedAt'', Timestamp 700)]))"
    by (simp add: accepted_def example_platform_def spread_def)
  from updateApartment_zero_skips_validation
         [OF wf f zero, of example_platform 700 "''A''" example_db]
    ex num unit clock keys acc
  show ?thesis by (simp add: spread_def example_db_def)
qed

text \<open>
  Claim C10 as stated fails: an update with \<open>floor = 0\<close> and \<open>rooms = -1\<close> skips the
  validation of the floor, is rejected for its rooms and is not written.
\<close>

theorem updateApartment_zero_counterexample:
  "property [(''floor'', Num 0), (''rooms'', Num (- 1))] ''floor'' = Num 0 \<and>
   updateApartment example_platform 700 ''A'' [(''floor'', Num 0), (''rooms'', Num (- 1))] example_db =
     (Inl InvalidRooms, example_db)"
  by (simp add: eval_defs)

end
